theory Spec2Isabelle
  imports Complex_Main "HOL-Library.AList" "HOL-Library.Sublist"
begin

section \<open>Python values, exceptions and the operations the handlers use\<close>

text \<open>
  The handlers of \<^verbatim>\<open>climate_apis.py\<close> and \<^verbatim>\<open>climate_trace_api.py\<close> work on
  decoded JSON: \<^verbatim>\<open>None\<close>, booleans, numbers, strings, lists and dictionaries with
  string keys. A dictionary is an association list in insertion order. Numbers
  (Python \<^verbatim>\<open>int\<close> and \<^verbatim>\<open>float\<close>) are idealised as reals: comparison and addition
  are exact, rounding and the special floats are not represented.
\<close>

datatype json =
    JNull
  | JBool bool
  | JNum real
  | JStr string
  | JList "json list"
  | JDict "(string \<times> json) list"

text \<open>Every \<^verbatim>\<open>raise\<close> of the source and of the built-in operations is a value.\<close>

datatype py_exn =
    KeyError string
  | IndexError
  | TypeError
  | AttributeError
  | ValueError string
  | ZeroDivisionError
  | RequestException string
  | HTTPError nat
  | JSONDecodeError

text \<open>
  \<^verbatim>\<open>str(e)\<close>. A \<^verbatim>\<open>ValueError\<close> carries the text the source gives it and a
  \<^verbatim>\<open>KeyError\<close> the \<^verbatim>\<open>repr\<close> of the missing key (a string in quotes, an
  integer as its digits); the interpreter's wording for the other built-in
  exceptions is abbreviated to the exception's name.
\<close>

fun str_exn :: "py_exn \<Rightarrow> string" where
  "str_exn (KeyError k) = k"
| "str_exn IndexError = ''IndexError''"
| "str_exn TypeError = ''TypeError''"
| "str_exn AttributeError = ''AttributeError''"
| "str_exn (ValueError m) = m"
| "str_exn ZeroDivisionError = ''float division by zero''"
| "str_exn (RequestException m) = m"
| "str_exn (HTTPError n) = ''HTTPError''"
| "str_exn JSONDecodeError = ''JSONDecodeError''"

definition repr_str :: "string \<Rightarrow> string" where
  "repr_str k = [CHR 0x27] @ k @ [CHR 0x27]"

text \<open>\<^verbatim>\<open>sep.join(xs)\<close> and \<^verbatim>\<open>str(n)\<close> for an integer.\<close>

fun join :: "string \<Rightarrow> string list \<Rightarrow> string" where
  "join sep [] = []"
| "join sep [x] = x"
| "join sep (x # y # ys) = x @ sep @ join sep (y # ys)"

definition digit_char :: "nat \<Rightarrow> char" where
  "digit_char d = ''0123456789'' ! d"

function str_nat :: "nat \<Rightarrow> string" where
  "str_nat n = (if n < 10 then [digit_char n] else str_nat (n div 10) @ [digit_char (n mod 10)])"
  by pat_completeness auto
termination
  by (relation "measure id") auto

declare str_nat.simps [simp del]

definition str_int :: "int \<Rightarrow> string" where
  "str_int i = (if i < 0 then CHR ''-'' # str_nat (nat (- i)) else str_nat (nat i))"

text \<open>Sequencing of two steps of which the first may raise.\<close>

definition bindE :: "py_exn + 'a \<Rightarrow> ('a \<Rightarrow> py_exn + 'b) \<Rightarrow> py_exn + 'b" where
  "bindE m f = (case m of Inl e \<Rightarrow> Inl e | Inr x \<Rightarrow> f x)"

text \<open>\<^verbatim>\<open>except Exception as e: return {'error': str(e)}\<close>\<close>

definition error_dict :: "py_exn \<Rightarrow> json" where
  "error_dict e = JDict [(''error'', JStr (str_exn e))]"

definition catch_error :: "py_exn + json \<Rightarrow> json" where
  "catch_error m = (case m of Inl e \<Rightarrow> error_dict e | Inr v \<Rightarrow> v)"

text \<open>Truth value of an object (\<^verbatim>\<open>if x:\<close>).\<close>

fun truthy :: "json \<Rightarrow> bool" where
  "truthy JNull = False"
| "truthy (JBool b) = b"
| "truthy (JNum r) = (r \<noteq> 0)"
| "truthy (JStr s) = (s \<noteq> [])"
| "truthy (JList xs) = (xs \<noteq> [])"
| "truthy (JDict kvs) = (kvs \<noteq> [])"

text \<open>\<^verbatim>\<open>k in s\<close> for two strings: \<open>k\<close> occurs in \<open>s\<close> as a contiguous piece.\<close>

fun str_contains :: "string \<Rightarrow> string \<Rightarrow> bool" where
  "str_contains k [] = (k = [])"
| "str_contains k (c # cs) = (prefix k (c # cs) \<or> str_contains k cs)"

text \<open>
  \<^verbatim>\<open>'k' in v\<close> with a string literal on the left: key membership for a dictionary,
  element membership for a list, substring test for a string, \<^verbatim>\<open>TypeError\<close> for
  a value that is not a container.
\<close>

fun py_in :: "string \<Rightarrow> json \<Rightarrow> py_exn + bool" where
  "py_in k (JDict kvs) = Inr (k \<in> set (map fst kvs))"
| "py_in k (JList xs) = Inr (JStr k \<in> set xs)"
| "py_in k (JStr s) = Inr (str_contains k s)"
| "py_in k JNull = Inl TypeError"
| "py_in k (JBool b) = Inl TypeError"
| "py_in k (JNum r) = Inl TypeError"

text \<open>\<^verbatim>\<open>v['k']\<close>: only a dictionary can be indexed by a string.\<close>

fun py_getitem :: "json \<Rightarrow> string \<Rightarrow> py_exn + json" where
  "py_getitem (JDict kvs) k = (case map_of kvs k of None \<Rightarrow> Inl (KeyError (repr_str k)) | Some v \<Rightarrow> Inr v)"
| "py_getitem JNull k = Inl TypeError"
| "py_getitem (JBool b) k = Inl TypeError"
| "py_getitem (JNum r) k = Inl TypeError"
| "py_getitem (JStr s) k = Inl TypeError"
| "py_getitem (JList xs) k = Inl TypeError"

text \<open>
  \<^verbatim>\<open>v[i]\<close> for a literal index \<open>i \<ge> 0\<close>. A decoded JSON dictionary has string
  keys only, so an integer key is never found.
\<close>

fun py_index :: "json \<Rightarrow> nat \<Rightarrow> py_exn + json" where
  "py_index (JList xs) i = (if i < length xs then Inr (xs ! i) else Inl IndexError)"
| "py_index (JStr s) i = (if i < length s then Inr (JStr [s ! i]) else Inl IndexError)"
| "py_index (JDict kvs) i = Inl (KeyError (str_nat i))"
| "py_index JNull i = Inl TypeError"
| "py_index (JBool b) i = Inl TypeError"
| "py_index (JNum r) i = Inl TypeError"

text \<open>\<^verbatim>\<open>len(v)\<close>\<close>

fun py_len :: "json \<Rightarrow> py_exn + nat" where
  "py_len (JList xs) = Inr (length xs)"
| "py_len (JStr s) = Inr (length s)"
| "py_len (JDict kvs) = Inr (length kvs)"
| "py_len JNull = Inl TypeError"
| "py_len (JBool b) = Inl TypeError"
| "py_len (JNum r) = Inl TypeError"

text \<open>\<^verbatim>\<open>v.get('k', d)\<close>: a method of dictionaries only.\<close>

fun py_get :: "json \<Rightarrow> string \<Rightarrow> json \<Rightarrow> py_exn + json" where
  "py_get (JDict kvs) k d = Inr (case map_of kvs k of None \<Rightarrow> d | Some v \<Rightarrow> v)"
| "py_get JNull k d = Inl AttributeError"
| "py_get (JBool b) k d = Inl AttributeError"
| "py_get (JNum r) k d = Inl AttributeError"
| "py_get (JStr s) k d = Inl AttributeError"
| "py_get (JList xs) k d = Inl AttributeError"

text \<open>
  \<^verbatim>\<open>for x in v\<close>: the elements of a list, the characters of a string, the keys
  of a dictionary.
\<close>

fun py_iter :: "json \<Rightarrow> py_exn + json list" where
  "py_iter (JList xs) = Inr xs"
| "py_iter (JStr s) = Inr (map (\<lambda>c. JStr [c]) s)"
| "py_iter (JDict kvs) = Inr (map (\<lambda>kv. JStr (fst kv)) kvs)"
| "py_iter JNull = Inl TypeError"
| "py_iter (JBool b) = Inl TypeError"
| "py_iter (JNum r) = Inl TypeError"

text \<open>
  A number as Python's arithmetic and ordering see it: \<^verbatim>\<open>bool\<close> is a subclass of
  \<^verbatim>\<open>int\<close>; nothing else mixes with a number.
\<close>

fun as_num :: "json \<Rightarrow> real option" where
  "as_num (JNum r) = Some r"
| "as_num (JBool b) = Some (if b then 1 else 0)"
| "as_num JNull = None"
| "as_num (JStr s) = None"
| "as_num (JList xs) = None"
| "as_num (JDict kvs) = None"

text \<open>\<^verbatim>\<open>a <= v\<close> and \<^verbatim>\<open>v <= a\<close> for a number \<open>a\<close>.\<close>

definition num_le_py :: "real \<Rightarrow> json \<Rightarrow> py_exn + bool" where
  "num_le_py a v = (case as_num v of None \<Rightarrow> Inl TypeError | Some r \<Rightarrow> Inr (a \<le> r))"

definition py_le_num :: "json \<Rightarrow> real \<Rightarrow> py_exn + bool" where
  "py_le_num v a = (case as_num v of None \<Rightarrow> Inl TypeError | Some r \<Rightarrow> Inr (r \<le> a))"

text \<open>\<^verbatim>\<open>a + v\<close> for a number \<open>a\<close>.\<close>

definition num_add_py :: "real \<Rightarrow> json \<Rightarrow> py_exn + real" where
  "num_add_py a v = (case as_num v of None \<Rightarrow> Inl TypeError | Some r \<Rightarrow> Inr (a + r))"

section \<open>The network and the configuration\<close>

text \<open>
  A request as \<^verbatim>\<open>requests.Session\<close> sends it. The upstream services are a
  parameter: given the requests sent so far and the next one, either the
  transport raises or a reply with a status and a body arrives; the body is
  \<open>None\<close> when it is not JSON. Every handler returns its value together with
  the extended list of requests, so that "no request is sent" is a statement
  about that list.
\<close>

datatype http_method = GET | POST

record request =
  req_method :: http_method
  req_url :: string
  req_params :: "(string \<times> json) list"
  req_headers :: "(string \<times> string) list"
  req_json :: "json option"

record reply =
  status_code :: nat
  body :: "json option"

type_synonym upstream = "request list \<Rightarrow> request \<Rightarrow> py_exn + reply"

text \<open>
  \<^verbatim>\<open>config.settings\<close> is not among the sources; the values the handlers read
  from it are fields of the environment, together with the services, the
  clock (\<^verbatim>\<open>datetime.now()\<close>) and the interpreter's \<^verbatim>\<open>str\<close> of a float.
\<close>

record env =
  OPENWEATHER_API_BASE :: string
  OPENWEATHER_API_KEY :: string
  CARBON_INTERFACE_API_BASE :: string
  CARBON_INTERFACE_API_KEY :: string
  CLIMATETRACE_API_BASE :: string
  services :: upstream
  now_isoformat :: string
  now_timestamp :: int
  str_float :: "real \<Rightarrow> string"

definition session_send :: "env \<Rightarrow> request \<Rightarrow> request list \<Rightarrow> (py_exn + reply) \<times> request list" where
  "session_send E req sent = (services E sent req, sent @ [req])"

text \<open>\<^verbatim>\<open>response.raise_for_status()\<close> and \<^verbatim>\<open>response.json()\<close>\<close>

definition raise_for_status :: "reply \<Rightarrow> py_exn + reply" where
  "raise_for_status r =
     (if 400 \<le> status_code r \<and> status_code r < 600 then Inl (HTTPError (status_code r)) else Inr r)"

definition response_json :: "reply \<Rightarrow> py_exn + json" where
  "response_json r = (case body r of None \<Rightarrow> Inl JSONDecodeError | Some j \<Rightarrow> Inr j)"

text \<open>
  The three lines every client function shares: send, check the status,
  decode the body.
\<close>

definition fetch_json :: "env \<Rightarrow> request \<Rightarrow> request list \<Rightarrow> (py_exn + json) \<times> request list" where
  "fetch_json E req sent =
     (case session_send E req sent of
        (r, sent') \<Rightarrow> (bindE (bindE r raise_for_status) response_json, sent'))"

definition get_request :: "string \<Rightarrow> (string \<times> json) list \<Rightarrow> request" where
  "get_request u ps =
     \<lparr>req_method = GET, req_url = u, req_params = ps, req_headers = [], req_json = None\<rparr>"

section \<open>Climate TRACE client\<close>

text \<open>\<^verbatim>\<open>if xs: params[k] = ','.join(xs)\<close> for an optional list of strings.\<close>

definition set_joined :: "string \<Rightarrow> string list option \<Rightarrow> (string \<times> json) list \<Rightarrow> (string \<times> json) list" where
  "set_joined k v ps =
     (case v of
        None \<Rightarrow> ps
      | Some [] \<Rightarrow> ps
      | Some (x # xs) \<Rightarrow> AList.update k (JStr (join '','' (x # xs))) ps)"

definition clamp_year :: "int \<Rightarrow> int" where
  "clamp_year y = max 2000 (min y 2050)"

definition country_emissions_params ::
  "int \<Rightarrow> int \<Rightarrow> string list option \<Rightarrow> string list option \<Rightarrow> string list option \<Rightarrow>
   string list option \<Rightarrow> string list option \<Rightarrow> (string \<times> json) list" where
  "country_emissions_params since to sector subsector continents groups countries =
     set_joined ''countries'' countries
       (set_joined ''groups'' groups
         (set_joined ''continents'' continents
           (set_joined ''subsectors'' subsector
             (set_joined ''sector'' sector
               [(''since'', JNum (of_int (clamp_year since))),
                (''to'', JNum (of_int (clamp_year to)))]))))"

definition get_country_emissions ::
  "env \<Rightarrow> int \<Rightarrow> int \<Rightarrow> string list option \<Rightarrow> string list option \<Rightarrow> string list option \<Rightarrow>
   string list option \<Rightarrow> string list option \<Rightarrow> request list \<Rightarrow> json \<times> request list" where
  "get_country_emissions E since to sector subsector continents groups countries sent =
     (case fetch_json E
             (get_request (CLIMATETRACE_API_BASE E @ ''/country/emissions'')
                (country_emissions_params since to sector subsector continents groups countries))
             sent of
        (r, sent') \<Rightarrow> (catch_error r, sent'))"

text \<open>\<^verbatim>\<open>if admin_id: params['adminId'] = admin_id\<close>: zero counts as absent.\<close>

definition set_admin_id :: "int option \<Rightarrow> (string \<times> json) list \<Rightarrow> (string \<times> json) list" where
  "set_admin_id a ps =
     (case a of
        None \<Rightarrow> ps
      | Some n \<Rightarrow> if n = 0 then ps else AList.update ''adminId'' (JNum (of_int n)) ps)"

definition search_emissions_sources ::
  "env \<Rightarrow> int \<Rightarrow> int \<Rightarrow> int \<Rightarrow> string list option \<Rightarrow> string list option \<Rightarrow> string list option \<Rightarrow>
   string list option \<Rightarrow> string list option \<Rightarrow> int option \<Rightarrow> request list \<Rightarrow> json \<times> request list" where
  "search_emissions_sources E limit year offset countries sectors subsectors continents groups admin_id sent =
     (case fetch_json E
             (get_request (CLIMATETRACE_API_BASE E @ ''/assets'')
                (set_admin_id admin_id
                  (set_joined ''groups'' groups
                    (set_joined ''continents'' continents
                      (set_joined ''subsectors'' subsectors
                        (set_joined ''sectors'' sectors
                          (set_joined ''countries'' countries
                            [(''limit'', JNum (of_int (min limit 1000))),
                             (''year'', JNum (of_int year)),
                             (''offset'', JNum (of_int offset))])))))))
             sent of
        (r, sent') \<Rightarrow> (catch_error r, sent'))"

text \<open>
  \<^verbatim>\<open>get_source_details\<close>: the range check returns before any request is built.
\<close>

definition get_source_details :: "env \<Rightarrow> int \<Rightarrow> request list \<Rightarrow> json \<times> request list" where
  "get_source_details E source_id sent =
     (if \<not> (1 \<le> source_id \<and> source_id \<le> 5000000)
      then (JDict [(''error'', JStr ''Source ID must be between 1 and 5,000,000'')], sent)
      else (case fetch_json E
                   (get_request (CLIMATETRACE_API_BASE E @ ''/assets/'' @ str_int source_id) [])
                   sent of
              (r, sent') \<Rightarrow> (catch_error r, sent')))"






definition get_sectors :: "env \<Rightarrow> request list \<Rightarrow> json \<times> request list" where
  "get_sectors E sent =
     (case fetch_json E (get_request (CLIMATETRACE_API_BASE E @ ''/definitions/sectors'') []) sent of
        (r, sent') \<Rightarrow> (catch_error r, sent'))"






section \<open>Climate API handler\<close>

subsection \<open>Weather, with its fallback\<close>

text \<open>
  \<^verbatim>\<open>str.lower\<close> and \<^verbatim>\<open>str.title\<close> on ASCII text: a character is cased exactly
  when it is a letter; \<^verbatim>\<open>title\<close> upper-cases a letter that does not follow a
  letter and lower-cases one that does. Characters outside ASCII are left as
  they are.
\<close>

definition ascii_uppercase :: string where
  "ascii_uppercase = ''ABCDEFGHIJKLMNOPQRSTUVWXYZ''"

definition ascii_lowercase :: string where
  "ascii_lowercase = ''abcdefghijklmnopqrstuvwxyz''"

definition is_upper :: "char \<Rightarrow> bool" where
  "is_upper c = (c \<in> set ascii_uppercase)"

definition is_lower :: "char \<Rightarrow> bool" where
  "is_lower c = (c \<in> set ascii_lowercase)"

definition to_lower :: "char \<Rightarrow> char" where
  "to_lower c = (case map_of (zip ascii_uppercase ascii_lowercase) c of None \<Rightarrow> c | Some l \<Rightarrow> l)"

definition to_upper :: "char \<Rightarrow> char" where
  "to_upper c = (case map_of (zip ascii_lowercase ascii_uppercase) c of None \<Rightarrow> c | Some u \<Rightarrow> u)"

definition py_lower :: "string \<Rightarrow> string" where
  "py_lower s = map to_lower s"

fun title_from :: "bool \<Rightarrow> string \<Rightarrow> string" where
  "title_from previous_is_cased [] = []"
| "title_from previous_is_cased (c # cs) =
     (if previous_is_cased then to_lower c else to_upper c)
       # title_from (is_upper c \<or> is_lower c) cs"

definition py_title :: "string \<Rightarrow> string" where
  "py_title s = title_from False s"

record city_info =
  city_lat :: real
  city_lon :: real
  city_temp :: real
  city_country :: string

definition city_data :: "(string \<times> city_info) list" where
  "city_data =
     [(''new york'', \<lparr>city_lat = 40.7128, city_lon = -74.0060, city_temp = 15, city_country = ''US''\<rparr>),
      (''london'', \<lparr>city_lat = 51.5074, city_lon = -0.1278, city_temp = 12, city_country = ''GB''\<rparr>),
      (''tokyo'', \<lparr>city_lat = 35.6762, city_lon = 139.6503, city_temp = 18, city_country = ''JP''\<rparr>),
      (''paris'', \<lparr>city_lat = 48.8566, city_lon = 2.3522, city_temp = 14, city_country = ''FR''\<rparr>),
      (''berlin'', \<lparr>city_lat = 52.5200, city_lon = 13.4050, city_temp = 11, city_country = ''DE''\<rparr>),
      (''sydney'', \<lparr>city_lat = -33.8688, city_lon = 151.2093, city_temp = 22, city_country = ''AU''\<rparr>),
      (''mumbai'', \<lparr>city_lat = 19.0760, city_lon = 72.8777, city_temp = 28, city_country = ''IN''\<rparr>),
      (''beijing'', \<lparr>city_lat = 39.9042, city_lon = 116.4074, city_temp = 16, city_country = ''CN''\<rparr>),
      (''moscow'', \<lparr>city_lat = 55.7558, city_lon = 37.6176, city_temp = 8, city_country = ''RU''\<rparr>),
      (''cairo'', \<lparr>city_lat = 30.0444, city_lon = 31.2357, city_temp = 25, city_country = ''EG''\<rparr>)]"

definition new_york :: city_info where
  "new_york = \<lparr>city_lat = 40.7128, city_lon = -74.0060, city_temp = 15, city_country = ''US''\<rparr>"

text \<open>\<^verbatim>\<open>city_data.get(location_lower, city_data['new york'])\<close>\<close>

definition lookup_city :: "string \<Rightarrow> city_info" where
  "lookup_city location =
     (case map_of city_data (py_lower location) of
        None \<Rightarrow> (case map_of city_data ''new york'' of Some c \<Rightarrow> c | None \<Rightarrow> new_york)
      | Some c \<Rightarrow> c)"

definition get_fallback_weather_data :: "string \<Rightarrow> json" where
  "get_fallback_weather_data location =
     (let city_info = lookup_city location in
      JDict [(''location'', JStr (py_title location)),
             (''country'', JStr (city_country city_info)),
             (''temperature'', JNum (city_temp city_info)),
             (''humidity'', JNum 65),
             (''pressure'', JNum 1013),
             (''weather'', JStr ''partly cloudy''),
             (''wind_speed'', JNum 3.5),
             (''coordinates'', JDict [(''lat'', JNum (city_lat city_info)), (''lon'', JNum (city_lon city_info))]),
             (''note'', JStr ''Using fallback data - API unavailable'')])"

text \<open>
  The dictionary built from the decoded reply; the entries are evaluated in
  the order they are written, and the first missing key or wrong shape
  raises.
\<close>

definition weather_reading :: "json \<Rightarrow> py_exn + json" where
  "weather_reading data =
     bindE (py_getitem data ''name'') (\<lambda>name.
     bindE (bindE (py_getitem data ''sys'') (\<lambda>x. py_getitem x ''country'')) (\<lambda>cntry.
     bindE (bindE (py_getitem data ''main'') (\<lambda>x. py_getitem x ''temp'')) (\<lambda>temperature.
     bindE (bindE (py_getitem data ''main'') (\<lambda>x. py_getitem x ''humidity'')) (\<lambda>humidity.
     bindE (bindE (py_getitem data ''main'') (\<lambda>x. py_getitem x ''pressure'')) (\<lambda>pressure.
     bindE (bindE (bindE (py_getitem data ''weather'') (\<lambda>x. py_index x 0))
                  (\<lambda>x. py_getitem x ''description'')) (\<lambda>weather.
     bindE (bindE (py_getitem data ''wind'') (\<lambda>x. py_getitem x ''speed'')) (\<lambda>wind_speed.
     bindE (bindE (py_getitem data ''coord'') (\<lambda>x. py_getitem x ''lat'')) (\<lambda>clat.
     bindE (bindE (py_getitem data ''coord'') (\<lambda>x. py_getitem x ''lon'')) (\<lambda>clon.
       Inr (JDict [(''location'', name),
                   (''country'', cntry),
                   (''temperature'', temperature),
                   (''humidity'', humidity),
                   (''pressure'', pressure),
                   (''weather'', weather),
                   (''wind_speed'', wind_speed),
                   (''coordinates'', JDict [(''lat'', clat), (''lon'', clon)])]))))))))))"

definition weather_request :: "env \<Rightarrow> string \<Rightarrow> request" where
  "weather_request E location =
     get_request (OPENWEATHER_API_BASE E @ ''/weather'')
       [(''q'', JStr location), (''appid'', JStr (OPENWEATHER_API_KEY E)), (''units'', JStr ''metric'')]"

definition get_weather_data :: "env \<Rightarrow> string \<Rightarrow> request list \<Rightarrow> json \<times> request list" where
  "get_weather_data E location sent =
     (case fetch_json E (weather_request E location) sent of
        (r, sent') \<Rightarrow>
          (case bindE r weather_reading of
             Inl e \<Rightarrow> (get_fallback_weather_data location, sent')
           | Inr reading \<Rightarrow> (reading, sent')))"

subsection \<open>Air quality\<close>

definition air_quality_fallback :: "env \<Rightarrow> json" where
  "air_quality_fallback E =
     JDict [(''aqi'', JNum 3),
            (''components'',
               JDict [(''co'', JNum 233.0), (''no'', JNum 0.01), (''no2'', JNum 20.0),
                      (''o3'', JNum 68.0), (''so2'', JNum 6.0), (''pm2_5'', JNum 15.0),
                      (''pm10'', JNum 25.0), (''nh3'', JNum 0.5)]),
            (''timestamp'', JNum (of_int (now_timestamp E))),
            (''note'', JStr ''Using fallback data - API unavailable'')]"

text \<open>What the \<^verbatim>\<open>try\<close> block does with the decoded reply.\<close>

definition air_quality_reading :: "json \<Rightarrow> py_exn + json" where
  "air_quality_reading data =
     bindE (py_getitem data ''list'') (\<lambda>l.
       if truthy l then
         bindE (bindE (py_getitem data ''list'') (\<lambda>x. py_index x 0)) (\<lambda>aqi_data.
         bindE (bindE (py_getitem aqi_data ''main'') (\<lambda>x. py_getitem x ''aqi'')) (\<lambda>aqi.
         bindE (py_getitem aqi_data ''components'') (\<lambda>components.
         bindE (py_getitem aqi_data ''dt'') (\<lambda>dt.
           Inr (JDict [(''aqi'', aqi), (''components'', components), (''timestamp'', dt)])))))
       else Inr (JDict [(''error'', JStr ''No air quality data available'')]))"

definition air_quality_request :: "env \<Rightarrow> real \<Rightarrow> real \<Rightarrow> request" where
  "air_quality_request E lat lon =
     get_request (OPENWEATHER_API_BASE E @ ''/air_pollution'')
       [(''lat'', JNum lat), (''lon'', JNum lon), (''appid'', JStr (OPENWEATHER_API_KEY E))]"

definition get_air_quality :: "env \<Rightarrow> real \<Rightarrow> real \<Rightarrow> request list \<Rightarrow> json \<times> request list" where
  "get_air_quality E lat lon sent =
     (case fetch_json E (air_quality_request E lat lon) sent of
        (r, sent') \<Rightarrow>
          (case bindE r air_quality_reading of
             Inl e \<Rightarrow> (air_quality_fallback E, sent')
           | Inr reading \<Rightarrow> (reading, sent')))"

subsection \<open>Carbon footprint\<close>

text \<open>\<^verbatim>\<open>d.get(k, default)\<close> on the caller's dictionary.\<close>

definition dict_get :: "(string \<times> json) list \<Rightarrow> string \<Rightarrow> json \<Rightarrow> json" where
  "dict_get d k dflt = (case map_of d k of None \<Rightarrow> dflt | Some v \<Rightarrow> v)"

definition prepare_carbon_payload :: "string \<Rightarrow> (string \<times> json) list \<Rightarrow> py_exn + json" where
  "prepare_carbon_payload activity_type activity_data =
     (if activity_type = ''electricity'' then
        Inr (JDict [(''type'', JStr ''electricity''),
                    (''electricity_unit'', JStr ''kwh''),
                    (''electricity_value'', dict_get activity_data ''kwh'' (JNum 0)),
                    (''country'', dict_get activity_data ''country'' (JStr ''us''))])
      else if activity_type = ''vehicle'' then
        Inr (JDict [(''type'', JStr ''vehicle''),
                    (''distance_unit'', dict_get activity_data ''distance_unit'' (JStr ''km'')),
                    (''distance_value'', dict_get activity_data ''distance'' (JNum 0)),
                    (''vehicle_model_id'',
                       dict_get activity_data ''vehicle_model_id''
                         (JStr ''7268a9b7-17e8-4c8d-acca-57059252afe9''))])
      else if activity_type = ''flight'' then
        Inr (JDict [(''type'', JStr ''flight''),
                    (''passengers'', dict_get activity_data ''passengers'' (JNum 1)),
                    (''legs'', dict_get activity_data ''legs'' (JList []))])
      else Inl (ValueError (''Unsupported activity type: '' @ activity_type)))"

definition carbon_request :: "env \<Rightarrow> json \<Rightarrow> request" where
  "carbon_request E payload =
     \<lparr>req_method = POST,
      req_url = CARBON_INTERFACE_API_BASE E @ ''/estimates'',
      req_params = [],
      req_headers = [(''Authorization'', ''Bearer '' @ CARBON_INTERFACE_API_KEY E),
                     (''Content-Type'', ''application/json'')],
      req_json = Some payload\<rparr>"

definition carbon_estimate :: "string \<Rightarrow> (string \<times> json) list \<Rightarrow> json \<Rightarrow> py_exn + json" where
  "carbon_estimate activity_type activity_data data =
     bindE (bindE (bindE (py_getitem data ''data'') (\<lambda>x. py_getitem x ''attributes''))
                  (\<lambda>x. py_getitem x ''carbon_kg'')) (\<lambda>kg.
     bindE (bindE (bindE (py_getitem data ''data'') (\<lambda>x. py_getitem x ''attributes''))
                  (\<lambda>x. py_getitem x ''carbon_lb'')) (\<lambda>lb.
     bindE (bindE (bindE (py_getitem data ''data'') (\<lambda>x. py_getitem x ''attributes''))
                  (\<lambda>x. py_getitem x ''carbon_mt'')) (\<lambda>mt.
       Inr (JDict [(''carbon_kg'', kg), (''carbon_lb'', lb), (''carbon_mt'', mt),
                   (''activity_type'', JStr activity_type),
                   (''activity_data'', JDict activity_data)]))))"

definition calculate_carbon_footprint ::
  "env \<Rightarrow> string \<Rightarrow> (string \<times> json) list \<Rightarrow> request list \<Rightarrow> json \<times> request list" where
  "calculate_carbon_footprint E activity_type activity_data sent =
     (case prepare_carbon_payload activity_type activity_data of
        Inl e \<Rightarrow> (error_dict e, sent)
      | Inr payload \<Rightarrow>
          (case fetch_json E (carbon_request E payload) sent of
             (r, sent') \<Rightarrow>
               (catch_error (bindE r (carbon_estimate activity_type activity_data)), sent')))"

subsection \<open>Emissions heat map\<close>

definition default_bounds :: "(string \<times> real) list" where
  "default_bounds = [(''north'', 85), (''south'', -85), (''east'', 180), (''west'', -180)]"

text \<open>\<^verbatim>\<open>if not bounds: bounds = {...}\<close>: \<^verbatim>\<open>None\<close> and the empty dictionary are both false.\<close>

definition effective_bounds :: "(string \<times> real) list option \<Rightarrow> (string \<times> real) list" where
  "effective_bounds bounds =
     (case bounds of None \<Rightarrow> default_bounds | Some [] \<Rightarrow> default_bounds | Some (kv # kvs) \<Rightarrow> kv # kvs)"

definition bounds_get :: "(string \<times> real) list \<Rightarrow> string \<Rightarrow> py_exn + real" where
  "bounds_get bounds k = (case map_of bounds k of None \<Rightarrow> Inl (KeyError (repr_str k)) | Some v \<Rightarrow> Inr v)"

text \<open>
  \<^verbatim>\<open>bounds['west'] <= lon <= bounds['east'] and bounds['south'] <= lat <= bounds['north']\<close>:
  four comparisons, left to right, the evaluation stopping at the first
  that is false.
\<close>

definition in_bounds :: "(string \<times> real) list \<Rightarrow> json \<Rightarrow> json \<Rightarrow> py_exn + bool" where
  "in_bounds bounds lon lat =
     bindE (bounds_get bounds ''west'') (\<lambda>w.
     bindE (num_le_py w lon) (\<lambda>c1. if \<not> c1 then Inr False else
     bindE (bounds_get bounds ''east'') (\<lambda>e.
     bindE (py_le_num lon e) (\<lambda>c2. if \<not> c2 then Inr False else
     bindE (bounds_get bounds ''south'') (\<lambda>s.
     bindE (num_le_py s lat) (\<lambda>c3. if \<not> c3 then Inr False else
     bindE (bounds_get bounds ''north'') (\<lambda>n.
     py_le_num lat n)))))))"

text \<open>
  The scan of \<^verbatim>\<open>EmissionsSummary\<close>: the first entry whose \<^verbatim>\<open>Gas\<close> is one of the
  two codes decides, and the loop breaks there.
\<close>

fun scan_emissions :: "json list \<Rightarrow> py_exn + json" where
  "scan_emissions [] = Inr (JNum 0)"
| "scan_emissions (emission # rest) =
     (case py_get emission ''Gas'' JNull of
        Inl e \<Rightarrow> Inl e
      | Inr gas \<Rightarrow>
          if gas = JStr ''co2e_100yr'' \<or> gas = JStr ''co2e''
          then py_get emission ''EmissionsQuantity'' (JNum 0)
          else scan_emissions rest)"

definition source_emissions :: "json \<Rightarrow> py_exn + json" where
  "source_emissions source =
     bindE (py_in ''EmissionsSummary'' source) (\<lambda>present.
       if present
       then bindE (bindE (py_getitem source ''EmissionsSummary'') py_iter) scan_emissions
       else Inr (JNum 0))"

text \<open>
  One pass of the loop body over a record: \<open>Inr None\<close> when the record adds no
  point, \<open>Inr (Some p)\<close> when it adds \<open>p\<close>, \<open>Inl e\<close> when it raises.
\<close>

definition heat_map_point :: "(string \<times> real) list \<Rightarrow> json \<Rightarrow> py_exn + json option" where
  "heat_map_point bounds source =
     bindE (py_in ''Centroid'' source) (\<lambda>has_centroid.
       if \<not> has_centroid then Inr None else
     bindE (bindE (py_getitem source ''Centroid'') (py_in ''Geometry'')) (\<lambda>has_geometry.
       if \<not> has_geometry then Inr None else
     bindE (bindE (py_getitem source ''Centroid'') (\<lambda>c. py_getitem c ''Geometry'')) (\<lambda>coords.
     bindE (py_len coords) (\<lambda>n.
       if \<not> 2 \<le> n then Inr None else
     bindE (py_index coords 0) (\<lambda>lon.
     bindE (py_index coords 1) (\<lambda>lat.
     bindE (in_bounds bounds lon lat) (\<lambda>inside.
       if \<not> inside then Inr None else
     bindE (source_emissions source) (\<lambda>emissions.
     bindE (py_get source ''Id'' JNull) (\<lambda>source_id.
     bindE (py_get source ''Name'' (JStr ''Unknown'')) (\<lambda>name.
     bindE (py_get source ''Country'' (JStr [])) (\<lambda>cntry.
     bindE (py_get source ''Sector'' (JStr [])) (\<lambda>sector.
       Inr (Some (JDict [(''lat'', lat),
                         (''lon'', lon),
                         (''intensity'', emissions),
                         (''source_id'', source_id),
                         (''name'', name),
                         (''country'', cntry),
                         (''sector'', sector)]))))))))))))))"

fun heat_map_loop :: "(string \<times> real) list \<Rightarrow> json list \<Rightarrow> json list \<Rightarrow> py_exn + json list" where
  "heat_map_loop bounds [] heat_map_points = Inr heat_map_points"
| "heat_map_loop bounds (source # rest) heat_map_points =
     (case heat_map_point bounds source of
        Inl e \<Rightarrow> Inl e
      | Inr None \<Rightarrow> heat_map_loop bounds rest heat_map_points
      | Inr (Some p) \<Rightarrow> heat_map_loop bounds rest (heat_map_points @ [p]))"

text \<open>
  \<^verbatim>\<open>assets = sources_data.get('assets', []) if isinstance(sources_data, dict) else sources_data\<close>,
  then the loop when \<^verbatim>\<open>assets\<close> is a list.
\<close>

definition assets_of :: "json \<Rightarrow> json" where
  "assets_of sources_data =
     (case sources_data of
        JDict kvs \<Rightarrow> (case map_of kvs ''assets'' of None \<Rightarrow> JList [] | Some a \<Rightarrow> a)
      | _ \<Rightarrow> sources_data)"

definition heat_map_points :: "(string \<times> real) list \<Rightarrow> json \<Rightarrow> py_exn + json list" where
  "heat_map_points bounds sources_data =
     (case assets_of sources_data of
        JList xs \<Rightarrow> heat_map_loop bounds xs []
      | _ \<Rightarrow> Inr [])"

definition sector_filter :: "string option \<Rightarrow> string list option" where
  "sector_filter sector =
     (case sector of None \<Rightarrow> None | Some s \<Rightarrow> if s = [] then None else Some [s])"

definition heat_map_result ::
  "(string \<times> real) list \<Rightarrow> int \<Rightarrow> string option \<Rightarrow> json \<Rightarrow> py_exn + json" where
  "heat_map_result bounds year sector sources_data =
     bindE (py_in ''error'' sources_data) (\<lambda>failed.
       if failed then Inr sources_data else
     bindE (heat_map_points bounds sources_data) (\<lambda>points.
       Inr (JDict [(''points'', JList points),
                   (''bounds'', JDict (map (\<lambda>kv. (fst kv, JNum (snd kv))) bounds)),
                   (''year'', JNum (of_int year)),
                   (''sector'', (case sector of None \<Rightarrow> JNull | Some s \<Rightarrow> JStr s)),
                   (''total_sources'', JNum (of_nat (length points)))])))"

definition get_emissions_heat_map_data ::
  "env \<Rightarrow> (string \<times> real) list option \<Rightarrow> int \<Rightarrow> string option \<Rightarrow> request list \<Rightarrow>
   json \<times> request list" where
  "get_emissions_heat_map_data E bounds year sector sent =
     (case search_emissions_sources E 1000 year 0 None (sector_filter sector) None None None None sent of
        (sources_data, sent') \<Rightarrow>
          (catch_error (heat_map_result (effective_bounds bounds) year sector sources_data), sent'))"

subsection \<open>Notions the statements about the heat map use\<close>

text \<open>
  The asset records a decoded reply holds, as the handler reads them.
\<close>

definition asset_records :: "json \<Rightarrow> json list" where
  "asset_records sources_data = (case assets_of sources_data of JList xs \<Rightarrow> xs | _ \<Rightarrow> [])"

text \<open>The points a list of records yields, record by record, in order.\<close>

definition record_points :: "(string \<times> real) list \<Rightarrow> json list \<Rightarrow> json list" where
  "record_points bounds xs =
     concat (map (\<lambda>source. case heat_map_point bounds source of Inr (Some p) \<Rightarrow> [p] | _ \<Rightarrow> []) xs)"


text \<open>
  The entries of a record's \<^verbatim>\<open>EmissionsSummary\<close>, the quantity an entry
  carries (0 when absent), and two ways of choosing among the entries: the
  first entry, in list order, whose gas is either code; and the reading that
  prefers \<^verbatim>\<open>co2e_100yr\<close>, taking \<^verbatim>\<open>co2e\<close> only when no entry has
  \<^verbatim>\<open>co2e_100yr\<close>.
\<close>

definition summary_entries :: "json \<Rightarrow> json list" where
  "summary_entries source =
     (case source of
        JDict kvs \<Rightarrow> (case map_of kvs ''EmissionsSummary'' of Some (JList es) \<Rightarrow> es | _ \<Rightarrow> [])
      | _ \<Rightarrow> [])"

definition gas_is :: "string \<Rightarrow> json \<Rightarrow> bool" where
  "gas_is code emission =
     (case emission of JDict kvs \<Rightarrow> map_of kvs ''Gas'' = Some (JStr code) | _ \<Rightarrow> False)"

definition emissions_quantity :: "json \<Rightarrow> json" where
  "emissions_quantity emission =
     (case emission of
        JDict kvs \<Rightarrow> (case map_of kvs ''EmissionsQuantity'' of None \<Rightarrow> JNum 0 | Some q \<Rightarrow> q)
      | _ \<Rightarrow> JNum 0)"

definition first_match_quantity :: "json list \<Rightarrow> json" where
  "first_match_quantity entries =
     (case find (\<lambda>e. gas_is ''co2e_100yr'' e \<or> gas_is ''co2e'' e) entries of
        None \<Rightarrow> JNum 0
      | Some e \<Rightarrow> emissions_quantity e)"

definition preferred_quantity :: "json list \<Rightarrow> json" where
  "preferred_quantity entries =
     (case find (gas_is ''co2e_100yr'') entries of
        Some e \<Rightarrow> emissions_quantity e
      | None \<Rightarrow>
          (case find (gas_is ''co2e'') entries of
             Some e \<Rightarrow> emissions_quantity e
           | None \<Rightarrow> JNum 0))"

subsection \<open>Global emissions overview\<close>

definition top_emitters :: "string list" where
  "top_emitters = [''CHN'', ''USA'', ''IND'', ''JPN'', ''RUS'', ''DEU'', ''KOR'', ''IRN'', ''SAU'', ''GBR'']"

text \<open>
  The loop body over one country record; the state is the running total and
  the ranking built so far.
\<close>

definition rank_country :: "json \<Rightarrow> real \<times> json list \<Rightarrow> py_exn + real \<times> json list" where
  "rank_country country_data acc =
     bindE (py_in ''emissions'' country_data) (\<lambda>present.
       if \<not> present then Inr acc else
     bindE (bindE (py_getitem country_data ''emissions'') (\<lambda>x. py_get x ''co2e_100yr'' (JNum 0)))
       (\<lambda>emissions_value.
     bindE (num_add_py (fst acc) emissions_value) (\<lambda>total_emissions.
     bindE (py_get country_data ''country'' JNull) (\<lambda>cntry.
     bindE (py_get country_data ''rank'' (JNum 0)) (\<lambda>rnk.
       Inr (total_emissions,
            snd acc @ [JDict [(''country'', cntry),
                              (''emissions'', emissions_value),
                              (''rank'', rnk)]]))))))"

fun rank_countries :: "json list \<Rightarrow> real \<times> json list \<Rightarrow> py_exn + real \<times> json list" where
  "rank_countries [] acc = Inr acc"
| "rank_countries (country_data # rest) acc =
     (case rank_country country_data acc of
        Inl e \<Rightarrow> Inl e
      | Inr acc' \<Rightarrow> rank_countries rest acc')"

text \<open>
  \<^verbatim>\<open>country_rankings.sort(key=lambda x: x['emissions'], reverse=True)\<close>: the keys
  are computed once, the sort compares keys only and is stable, and
  \<^verbatim>\<open>reverse=True\<close> keeps the first of two equal keys first (reverse, sort
  ascending, reverse). Keys that are not numbers are taken to raise; the loop
  above only ever stores numbers.
\<close>

definition ranking_key :: "json \<Rightarrow> py_exn + real" where
  "ranking_key x =
     bindE (py_getitem x ''emissions'')
       (\<lambda>v. case as_num v of None \<Rightarrow> Inl TypeError | Some r \<Rightarrow> Inr r)"

fun decorate :: "json list \<Rightarrow> py_exn + (real \<times> json) list" where
  "decorate [] = Inr []"
| "decorate (x # xs) =
     (case ranking_key x of
        Inl e \<Rightarrow> Inl e
      | Inr k \<Rightarrow> (case decorate xs of Inl e \<Rightarrow> Inl e | Inr kxs \<Rightarrow> Inr ((k, x) # kxs)))"

definition sort_by_emissions_desc :: "json list \<Rightarrow> py_exn + json list" where
  "sort_by_emissions_desc xs =
     bindE (decorate xs) (\<lambda>kxs. Inr (map snd (rev (sort_key fst (rev kxs)))))"

definition country_records :: "json \<Rightarrow> json list" where
  "country_records country_emissions = (case country_emissions of JList cs \<Rightarrow> cs | _ \<Rightarrow> [])"

definition overview_result :: "env \<Rightarrow> int \<Rightarrow> json \<Rightarrow> json \<Rightarrow> py_exn + json" where
  "overview_result E year country_emissions sectors =
     bindE (rank_countries (country_records country_emissions) (0, [])) (\<lambda>acc.
     bindE (sort_by_emissions_desc (snd acc)) (\<lambda>country_rankings.
       Inr (JDict [(''year'', JNum (of_int year)),
                   (''total_global_emissions'', JNum (fst acc)),
                   (''top_countries'', JList (take 10 country_rankings)),
                   (''available_sectors'', sectors),
                   (''data_sources'', JList [JStr ''Climate TRACE'', JStr ''World Bank'', JStr ''UN SDG'']),
                   (''last_updated'', JStr (now_isoformat E))])))"

definition get_global_emissions_overview :: "env \<Rightarrow> int \<Rightarrow> request list \<Rightarrow> json \<times> request list" where
  "get_global_emissions_overview E year sent =
     (case get_country_emissions E year year (Some [''power'']) None None None (Some top_emitters) sent of
        (country_emissions, sent1) \<Rightarrow>
          (case py_in ''error'' country_emissions of
             Inl e \<Rightarrow> (error_dict e, sent1)
           | Inr True \<Rightarrow> (country_emissions, sent1)
           | Inr False \<Rightarrow>
               (case get_sectors E sent1 of
                  (sectors, sent2) \<Rightarrow>
                    (catch_error (overview_result E year country_emissions sectors), sent2))))"

subsection \<open>Notions the statements about the overview use\<close>



section \<open>Sample environments\<close>

text \<open>
  Concrete configurations and services on which the definitions are evaluated.
\<close>

definition sample_env :: "upstream \<Rightarrow> env" where
  "sample_env up =
     \<lparr>OPENWEATHER_API_BASE = ''https://api.openweathermap.org/data/2.5'',
      OPENWEATHER_API_KEY = ''key'',
      CARBON_INTERFACE_API_BASE = ''https://www.carboninterface.com/api/v1'',
      CARBON_INTERFACE_API_KEY = ''key'',
      CLIMATETRACE_API_BASE = ''https://api.climatetrace.org/v6'',
      services = up,
      now_isoformat = ''2024-01-01T00:00:00'',
      now_timestamp = 1704067200,
      str_float = (\<lambda>r. ''0.0'')\<rparr>"

definition always_reply :: "json \<Rightarrow> upstream" where
  "always_reply j sent req = Inr \<lparr>status_code = 200, body = Some j\<rparr>"

definition unreachable :: upstream where
  "unreachable sent req = Inl (RequestException ''Connection refused'')"

text \<open>
  Three asset records: one inside the default box whose summary lists \<^verbatim>\<open>co2e\<close>
  before \<^verbatim>\<open>co2e_100yr\<close>, one without a centroid, one east of the box.
\<close>

definition asset_both_gases :: json where
  "asset_both_gases =
     JDict [(''Id'', JNum 7),
            (''Centroid'', JDict [(''Geometry'', JList [JNum 10, JNum 20])]),
            (''EmissionsSummary'',
               JList [JDict [(''Gas'', JStr ''co2e''), (''EmissionsQuantity'', JNum 5)],
                      JDict [(''Gas'', JStr ''co2e_100yr''), (''EmissionsQuantity'', JNum 7)]])]"

definition asset_no_centroid :: json where
  "asset_no_centroid = JDict [(''Id'', JNum 8)]"

definition asset_outside :: json where
  "asset_outside =
     JDict [(''Id'', JNum 9), (''Centroid'', JDict [(''Geometry'', JList [JNum 200, JNum 20])])]"

definition assets_reply :: json where
  "assets_reply = JDict [(''assets'', JList [asset_both_gases, asset_no_centroid, asset_outside])]"

text \<open>
  A reply with twelve country records: eleven with the figures 1 to 11 in
  that order, and one, in the fourth place, without \<^verbatim>\<open>emissions\<close>.
\<close>

definition country_with :: "string \<Rightarrow> real \<Rightarrow> json" where
  "country_with c v =
     JDict [(''country'', JStr c), (''emissions'', JDict [(''co2e_100yr'', JNum v)])]"

definition countries_reply :: json where
  "countries_reply =
     JList [country_with ''A'' 1, country_with ''B'' 2, country_with ''C'' 3,
            JDict [(''country'', JStr ''X'')],
            country_with ''D'' 4, country_with ''E'' 5, country_with ''F'' 6,
            country_with ''G'' 7, country_with ''H'' 8, country_with ''I'' 9,
            country_with ''J'' 10, country_with ''K'' 11]"

section \<open>Basic facts\<close>

lemma bindE_Inl [simp]: "bindE (Inl e) f = Inl e"
  by (simp add: bindE_def)

lemma bindE_Inr [simp]: "bindE (Inr x) f = f x"
  by (simp add: bindE_def)

lemma bindE_eq_Inr: "bindE m f = Inr y \<longleftrightarrow> (\<exists>x. m = Inr x \<and> f x = Inr y)"
  by (cases m) simp_all

lemma map_of_set_joined: "k' \<noteq> k \<Longrightarrow> map_of (set_joined k v ps) k' = map_of ps k'"
  by (simp add: set_joined_def update_conv' split: option.splits list.splits)

lemma snd_fetch_json: "snd (fetch_json E req sent) = sent @ [req]"
  by (simp add: fetch_json_def session_send_def)

section \<open>Country emissions: the transmitted years\<close>

lemma clamp_year_range: "2000 \<le> clamp_year y \<and> clamp_year y \<le> 2050"
  by (simp add: clamp_year_def)

lemma clamp_year_mono: "a \<le> b \<Longrightarrow> clamp_year a \<le> clamp_year b"
  by (simp add: clamp_year_def)

lemma country_params_since:
  "map_of (country_emissions_params since to sector subsector continents groups countries) ''since''
     = Some (JNum (of_int (clamp_year since)))"
  by (simp add: country_emissions_params_def map_of_set_joined)

lemma country_params_to:
  "map_of (country_emissions_params since to sector subsector continents groups countries) ''to''
     = Some (JNum (of_int (clamp_year to)))"
  by (simp add: country_emissions_params_def map_of_set_joined)

lemma snd_get_country_emissions:
  "snd (get_country_emissions E since to sector subsector continents groups countries sent) =
     sent @ [get_request (CLIMATETRACE_API_BASE E @ ''/country/emissions'')
                (country_emissions_params since to sector subsector continents groups countries)]"
  by (simp add: get_country_emissions_def split: prod.splits) (metis snd_fetch_json snd_conv)

text \<open>
  C2, as stated, fails: \<^verbatim>\<open>since\<close> and \<^verbatim>\<open>to\<close> are clamped independently, so
  \<^verbatim>\<open>since=2060, to=1990\<close> is transmitted as \<^verbatim>\<open>since=2050, to=2000\<close>, and the
  transmitted \<^verbatim>\<open>since\<close> is greater than the transmitted \<^verbatim>\<open>to\<close>.
\<close>

theorem get_country_emissions_since_above_to:
  "snd (get_country_emissions (sample_env (always_reply (JList []))) 2060 1990 None None None None None [])
     = [get_request ''https://api.climatetrace.org/v6/country/emissions''
          [(''since'', JNum 2050), (''to'', JNum 2000)]]
   \<and> (2050 :: real) > 2000"
  by (simp add: snd_get_country_emissions sample_env_def country_emissions_params_def
      set_joined_def clamp_year_def)

text \<open>
  C2, amended: \<^verbatim>\<open>get_country_emissions\<close> sends exactly one request; the \<^verbatim>\<open>since\<close>
  and \<^verbatim>\<open>to\<close> it transmits are integers in [2000, 2050] for all integer
  inputs, and the transmitted \<^verbatim>\<open>since\<close> is at most the transmitted \<^verbatim>\<open>to\<close>
  whenever the caller's \<^verbatim>\<open>since\<close> is at most the caller's \<^verbatim>\<open>to\<close>.
\<close>

theorem get_country_emissions_years_clamped:
  "\<exists>req s t.
     snd (get_country_emissions E since to sector subsector continents groups countries sent) = sent @ [req] \<and>
     map_of (req_params req) ''since'' = Some (JNum (of_int s)) \<and>
     map_of (req_params req) ''to'' = Some (JNum (of_int t)) \<and>
     2000 \<le> s \<and> s \<le> 2050 \<and> 2000 \<le> t \<and> t \<le> 2050 \<and>
     (since \<le> to \<longrightarrow> s \<le> t)"
proof -
  let ?req = "get_request (CLIMATETRACE_API_BASE E @ ''/country/emissions'')
                (country_emissions_params since to sector subsector continents groups countries)"
  have "snd (get_country_emissions E since to sector subsector continents groups countries sent) = sent @ [?req]"
    by (rule snd_get_country_emissions)
  moreover have "map_of (req_params ?req) ''since'' = Some (JNum (of_int (clamp_year since)))"
    by (simp add: get_request_def country_params_since)
  moreover have "map_of (req_params ?req) ''to'' = Some (JNum (of_int (clamp_year to)))"
    by (simp add: get_request_def country_params_to)
  moreover have "since \<le> to \<longrightarrow> clamp_year since \<le> clamp_year to"
    by (simp add: clamp_year_mono)
  ultimately show ?thesis
    using clamp_year_range [of since] clamp_year_range [of to] by blast
qed

theorem get_country_emissions_years_clamped_witness:
  "(1990 :: int) \<le> 2060 \<and>
   (\<exists>req s t.
     snd (get_country_emissions (sample_env unreachable) 1990 2060 (Some [''power'']) None None None None [])
       = [] @ [req] \<and>
     map_of (req_params req) ''since'' = Some (JNum (of_int s)) \<and>
     map_of (req_params req) ''to'' = Some (JNum (of_int t)) \<and>
     2000 \<le> s \<and> s \<le> 2050 \<and> 2000 \<le> t \<and> t \<le> 2050 \<and> s \<le> t)"
  using get_country_emissions_years_clamped
    [of "sample_env unreachable" 1990 2060 "Some [''power'']" None None None None "[]"]
  by simp

section \<open>Source details: the range check\<close>

text \<open>
  C5: for every integer \<^verbatim>\<open>source_id\<close> outside [1, 5000000], \<^verbatim>\<open>get_source_details\<close>
  returns a mapping with an \<^verbatim>\<open>error\<close> key and the list of requests is
  unchanged; for every \<^verbatim>\<open>source_id\<close> inside the range the request for
  \<^verbatim>\<open>/assets/{source_id}\<close> is sent.
\<close>

theorem get_source_details_range:
  "(\<not> (1 \<le> source_id \<and> source_id \<le> 5000000) \<longrightarrow>
      get_source_details E source_id sent =
        (JDict [(''error'', JStr ''Source ID must be between 1 and 5,000,000'')], sent)) \<and>
   (1 \<le> source_id \<and> source_id \<le> 5000000 \<longrightarrow>
      snd (get_source_details E source_id sent) =
        sent @ [get_request (CLIMATETRACE_API_BASE E @ ''/assets/'' @ str_int source_id) []])"
  by (simp add: get_source_details_def fetch_json_def session_send_def split: prod.splits)

lemma str_int_42: "str_int 42 = ''42''"
  by (simp add: str_int_def str_nat.simps digit_char_def)

theorem get_source_details_range_witness:
  "\<not> (1 \<le> (0::int) \<and> (0::int) \<le> 5000000) \<and>
   get_source_details (sample_env unreachable) 0 [] =
        (JDict [(''error'', JStr ''Source ID must be between 1 and 5,000,000'')], []) \<and>
   (1 \<le> (42::int) \<and> (42::int) \<le> 5000000) \<and>
   snd (get_source_details (sample_env unreachable) 42 []) =
        [get_request ''https://api.climatetrace.org/v6/assets/42'' []]"
  using get_source_details_range [of 0 "sample_env unreachable" "[]"]
        get_source_details_range [of 42 "sample_env unreachable" "[]"]
  by (simp add: str_int_42 sample_env_def)

section \<open>Carbon footprint: validation and payload\<close>

text \<open>
  C4: for every \<^verbatim>\<open>activity_type\<close> other than \<^verbatim>\<open>electricity\<close>, \<^verbatim>\<open>vehicle\<close> and
  \<^verbatim>\<open>flight\<close>, \<^verbatim>\<open>calculate_carbon_footprint\<close> returns the mapping whose \<^verbatim>\<open>error\<close>
  is the text of the \<^verbatim>\<open>ValueError\<close>, and no request is sent. For each of the
  three supported kinds one POST is sent whose JSON body has the fixed shape,
  every field absent from the caller's data replaced by its default.
\<close>

theorem calculate_carbon_footprint_validation:
  "(activity_type \<noteq> ''electricity'' \<and> activity_type \<noteq> ''vehicle'' \<and> activity_type \<noteq> ''flight'' \<longrightarrow>
      calculate_carbon_footprint E activity_type activity_data sent =
        (JDict [(''error'', JStr (''Unsupported activity type: '' @ activity_type))], sent)) \<and>
   snd (calculate_carbon_footprint E ''electricity'' activity_data sent) =
     sent @ [carbon_request E
       (JDict [(''type'', JStr ''electricity''),
               (''electricity_unit'', JStr ''kwh''),
               (''electricity_value'', (case map_of activity_data ''kwh'' of None \<Rightarrow> JNum 0 | Some v \<Rightarrow> v)),
               (''country'', (case map_of activity_data ''country'' of None \<Rightarrow> JStr ''us'' | Some v \<Rightarrow> v))])] \<and>
   snd (calculate_carbon_footprint E ''vehicle'' activity_data sent) =
     sent @ [carbon_request E
       (JDict [(''type'', JStr ''vehicle''),
               (''distance_unit'', (case map_of activity_data ''distance_unit'' of None \<Rightarrow> JStr ''km'' | Some v \<Rightarrow> v)),
               (''distance_value'', (case map_of activity_data ''distance'' of None \<Rightarrow> JNum 0 | Some v \<Rightarrow> v)),
               (''vehicle_model_id'', (case map_of activity_data ''vehicle_model_id'' of
                    None \<Rightarrow> JStr ''7268a9b7-17e8-4c8d-acca-57059252afe9'' | Some v \<Rightarrow> v))])] \<and>
   snd (calculate_carbon_footprint E ''flight'' activity_data sent) =
     sent @ [carbon_request E
       (JDict [(''type'', JStr ''flight''),
               (''passengers'', (case map_of activity_data ''passengers'' of None \<Rightarrow> JNum 1 | Some v \<Rightarrow> v)),
               (''legs'', (case map_of activity_data ''legs'' of None \<Rightarrow> JList [] | Some v \<Rightarrow> v))])]"
  by (simp add: calculate_carbon_footprint_def prepare_carbon_payload_def error_dict_def dict_get_def
      fetch_json_def session_send_def split: prod.splits)

theorem calculate_carbon_footprint_validation_witness:
  "(''train'' \<noteq> ''electricity'' \<and> ''train'' \<noteq> ''vehicle'' \<and> ''train'' \<noteq> ''flight'') \<and>
   calculate_carbon_footprint (sample_env unreachable) ''train'' [(''km'', JNum 12)] [] =
     (JDict [(''error'', JStr ''Unsupported activity type: train'')], []) \<and>
   snd (calculate_carbon_footprint (sample_env unreachable) ''electricity''
          [(''kwh'', JNum 100), (''country'', JStr ''us'')] []) =
     [carbon_request (sample_env unreachable)
        (JDict [(''type'', JStr ''electricity''),
                (''electricity_unit'', JStr ''kwh''),
                (''electricity_value'', JNum 100),
                (''country'', JStr ''us'')])]"
  using calculate_carbon_footprint_validation
          [of "''train''" "sample_env unreachable" "[(''km'', JNum 12)]" "[]"]
        calculate_carbon_footprint_validation
          [of "''electricity''" "sample_env unreachable" "[(''kwh'', JNum 100), (''country'', JStr ''us'')]" "[]"]
  by simp

section \<open>Emissions near a point: the division at the equator\<close>







section \<open>Weather fallback: the city table\<close>







section \<open>Weather: always a full reading\<close>

lemma weather_reading_shape:
  assumes "weather_reading data = Inr r"
  shows "\<exists>v1 v2 v3 v4 v5 v6 v7 v8 v9.
           r = JDict [(''location'', v1), (''country'', v2), (''temperature'', v3),
                      (''humidity'', v4), (''pressure'', v5), (''weather'', v6),
                      (''wind_speed'', v7),
                      (''coordinates'', JDict [(''lat'', v8), (''lon'', v9)])]"
  using assms unfolding weather_reading_def bindE_eq_Inr by blast

lemma get_weather_data_cases:
  "(\<exists>data. fst (fetch_json E (weather_request E location) sent) = Inr data \<and>
            weather_reading data = Inr (fst (get_weather_data E location sent))) \<or>
   fst (get_weather_data E location sent) = get_fallback_weather_data location"
proof (cases "fetch_json E (weather_request E location) sent")
  case (Pair r sent')
  show ?thesis
  proof (cases "bindE r weather_reading")
    case (Inl e)
    with Pair show ?thesis by (simp add: get_weather_data_def)
  next
    case (Inr reading)
    then obtain data where "r = Inr data" "weather_reading data = Inr reading"
      by (auto simp: bindE_eq_Inr)
    with Pair Inr show ?thesis by (simp add: get_weather_data_def)
  qed
qed

text \<open>
  C6: for every location string and every behaviour of the service,
  \<^verbatim>\<open>get_weather_data\<close> returns a mapping with exactly the fields location,
  country, temperature, humidity, pressure, weather, wind_speed and
  coordinates (itself a mapping with lat and lon), either read from the
  decoded reply or, when any step raised, the fallback, which has the
  additional field \<^verbatim>\<open>note\<close>; the mapping never has an \<^verbatim>\<open>error\<close> key.
\<close>

theorem get_weather_data_fully_populated:
  "\<exists>d c. fst (get_weather_data E location sent) = JDict d \<and>
     (map fst d = [''location'', ''country'', ''temperature'', ''humidity'', ''pressure'',
                   ''weather'', ''wind_speed'', ''coordinates''] \<and>
        (\<exists>data. fst (fetch_json E (weather_request E location) sent) = Inr data \<and>
                 weather_reading data = Inr (JDict d))
      \<or>
      map fst d = [''location'', ''country'', ''temperature'', ''humidity'', ''pressure'',
                   ''weather'', ''wind_speed'', ''coordinates'', ''note''] \<and>
        JDict d = get_fallback_weather_data location \<and>
        map_of d ''note'' = Some (JStr ''Using fallback data - API unavailable'')) \<and>
     map_of d ''coordinates'' = Some (JDict c) \<and> map fst c = [''lat'', ''lon''] \<and>
     ''error'' \<notin> set (map fst d)"
  using get_weather_data_cases [of E location sent]
proof (elim disjE exE conjE)
  fix data
  assume f: "fst (fetch_json E (weather_request E location) sent) = Inr data"
    and w: "weather_reading data = Inr (fst (get_weather_data E location sent))"
  from weather_reading_shape [OF w] obtain v1 v2 v3 v4 v5 v6 v7 v8 v9 where
    r: "fst (get_weather_data E location sent) =
          JDict [(''location'', v1), (''country'', v2), (''temperature'', v3),
                 (''humidity'', v4), (''pressure'', v5), (''weather'', v6),
                 (''wind_speed'', v7),
                 (''coordinates'', JDict [(''lat'', v8), (''lon'', v9)])]"
    by blast
  show ?thesis
    using f w by (simp add: r) 
next
  assume fb: "fst (get_weather_data E location sent) = get_fallback_weather_data location"
  show ?thesis
    by (simp add: fb get_fallback_weather_data_def Let_def)
qed

section \<open>Air quality: the empty list and the fallback\<close>

lemma air_quality_reading_shape:
  assumes "air_quality_reading data = Inr r"
  shows "(\<exists>aqi components dt.
            r = JDict [(''aqi'', aqi), (''components'', components), (''timestamp'', dt)]) \<or>
         r = JDict [(''error'', JStr ''No air quality data available'')]"
proof -
  from assms obtain l where l: "py_getitem data ''list'' = Inr l"
    unfolding air_quality_reading_def bindE_eq_Inr by blast
  show ?thesis
  proof (cases "truthy l")
    case True
    with assms l show ?thesis
      unfolding air_quality_reading_def by (auto simp: bindE_eq_Inr)
  next
    case False
    with assms l show ?thesis
      unfolding air_quality_reading_def by simp
  qed
qed

lemma air_quality_reading_not_fallback:
  "air_quality_reading data = Inr r \<Longrightarrow> r \<noteq> air_quality_fallback E"
  by (drule air_quality_reading_shape) (auto simp: air_quality_fallback_def)

lemma get_air_quality_split:
  "fst (get_air_quality E lat lon sent) =
     (case bindE (fst (fetch_json E (air_quality_request E lat lon) sent)) air_quality_reading of
        Inl e \<Rightarrow> air_quality_fallback E
      | Inr reading \<Rightarrow> reading)"
  by (simp add: get_air_quality_def split: prod.splits sum.splits)

text \<open>
  C10, as stated, fails in its last part: the fallback is also produced when
  the request succeeds and the decoded body lacks an expected key. Here the
  service answers 200 with the body \<^verbatim>\<open>{}\<close>; sending, status check and decoding
  all succeed, \<^verbatim>\<open>data['list']\<close> raises \<^verbatim>\<open>KeyError\<close>, and the result is the
  fallback.
\<close>

theorem get_air_quality_fallback_without_request_error:
  "fst (fetch_json (sample_env (always_reply (JDict []))) 
          (air_quality_request (sample_env (always_reply (JDict []))) 40.71 (-74)) []) = Inr (JDict []) \<and>
   fst (get_air_quality (sample_env (always_reply (JDict []))) 40.71 (-74) []) =
     air_quality_fallback (sample_env (always_reply (JDict [])))"
  by (simp add: get_air_quality_split fetch_json_def session_send_def sample_env_def always_reply_def
      raise_for_status_def response_json_def air_quality_reading_def)

text \<open>
  C10, amended: when the request succeeds and \<^verbatim>\<open>data['list']\<close> is the empty
  list, \<^verbatim>\<open>get_air_quality\<close> returns \<^verbatim>\<open>{'error': 'No air quality data available'}\<close>,
  which is not the fallback. The fallback is returned exactly when a step of
  the \<^verbatim>\<open>try\<close> block raises: the request, its status check or the decoding of
  the body, or the reading of \<^verbatim>\<open>list\<close>, \<^verbatim>\<open>main.aqi\<close>, \<^verbatim>\<open>components\<close> and \<^verbatim>\<open>dt\<close>
  from the decoded body.
\<close>

theorem get_air_quality_empty_list:
  "(fst (fetch_json E (air_quality_request E lat lon) sent) = Inr data \<and>
    py_getitem data ''list'' = Inr (JList []) \<longrightarrow>
      fst (get_air_quality E lat lon sent) = JDict [(''error'', JStr ''No air quality data available'')] \<and>
      fst (get_air_quality E lat lon sent) \<noteq> air_quality_fallback E) \<and>
   (fst (get_air_quality E lat lon sent) = air_quality_fallback E \<longleftrightarrow>
      (\<exists>e. fst (fetch_json E (air_quality_request E lat lon) sent) = Inl e) \<or>
      (\<exists>data e. fst (fetch_json E (air_quality_request E lat lon) sent) = Inr data \<and>
                 air_quality_reading data = Inl e))"
proof (intro conjI impI)
  assume a: "fst (fetch_json E (air_quality_request E lat lon) sent) = Inr data \<and>
    py_getitem data ''list'' = Inr (JList [])"
  then have r: "air_quality_reading data = Inr (JDict [(''error'', JStr ''No air quality data available'')])"
    by (simp add: air_quality_reading_def)
  with a show "fst (get_air_quality E lat lon sent) = JDict [(''error'', JStr ''No air quality data available'')]"
    by (simp add: get_air_quality_split)
  with r show "fst (get_air_quality E lat lon sent) \<noteq> air_quality_fallback E"
    using air_quality_reading_not_fallback by metis
next
  show "fst (get_air_quality E lat lon sent) = air_quality_fallback E \<longleftrightarrow>
      (\<exists>e. fst (fetch_json E (air_quality_request E lat lon) sent) = Inl e) \<or>
      (\<exists>data e. fst (fetch_json E (air_quality_request E lat lon) sent) = Inr data \<and>
                 air_quality_reading data = Inl e)"
  proof (cases "fst (fetch_json E (air_quality_request E lat lon) sent)")
    case (Inl e)
    then show ?thesis by (simp add: get_air_quality_split)
  next
    case (Inr data)
    show ?thesis
    proof (cases "air_quality_reading data")
      case (Inl e)
      with Inr show ?thesis by (simp add: get_air_quality_split)
    next
      case r: (Inr reading)
      with Inr air_quality_reading_not_fallback [OF r, of E] show ?thesis
        by (simp add: get_air_quality_split)
    qed
  qed
qed

theorem get_air_quality_empty_list_witness:
  "fst (fetch_json (sample_env (always_reply (JDict [(''list'', JList [])])))
          (air_quality_request (sample_env (always_reply (JDict [(''list'', JList [])]))) 40.71 (-74)) [])
     = Inr (JDict [(''list'', JList [])]) \<and>
   py_getitem (JDict [(''list'', JList [])]) ''list'' = Inr (JList []) \<and>
   fst (get_air_quality (sample_env (always_reply (JDict [(''list'', JList [])]))) 40.71 (-74) []) =
     JDict [(''error'', JStr ''No air quality data available'')] \<and>
   fst (fetch_json (sample_env unreachable) (air_quality_request (sample_env unreachable) 40.71 (-74)) [])
     = Inl (RequestException ''Connection refused'') \<and>
   fst (get_air_quality (sample_env unreachable) 40.71 (-74) []) = air_quality_fallback (sample_env unreachable)"
proof -
  have f: "fst (fetch_json (sample_env (always_reply (JDict [(''list'', JList [])])))
          (air_quality_request (sample_env (always_reply (JDict [(''list'', JList [])]))) 40.71 (-74)) [])
     = Inr (JDict [(''list'', JList [])])"
    by (simp add: fetch_json_def session_send_def sample_env_def always_reply_def
        raise_for_status_def response_json_def)
  have g: "fst (fetch_json (sample_env unreachable) (air_quality_request (sample_env unreachable) 40.71 (-74)) [])
     = Inl (RequestException ''Connection refused'')"
    by (simp add: fetch_json_def session_send_def sample_env_def unreachable_def)
  show ?thesis
    using f g
      get_air_quality_empty_list [of "sample_env (always_reply (JDict [(''list'', JList [])]))"
         "40.71" "-74" "[]" "JDict [(''list'', JList [])]"]
      get_air_quality_empty_list [of "sample_env unreachable" "40.71" "-74" "[]" "JDict []"]
    by simp
qed

section \<open>Emissions heat map\<close>

lemma py_get_Inr: "py_get v k d = Inr x \<Longrightarrow> \<exists>kvs. v = JDict kvs \<and> x = (case map_of kvs k of None \<Rightarrow> d | Some y \<Rightarrow> y)"
  by (cases v) auto

lemma scan_emissions_first_match:
  "scan_emissions es = Inr v \<Longrightarrow> v = first_match_quantity es"
proof (induction es)
  case Nil
  then show ?case by (simp add: first_match_quantity_def)
next
  case (Cons emission rest)
  from Cons.prems obtain gas where g: "py_get emission ''Gas'' JNull = Inr gas"
    by (auto split: sum.splits)
  then obtain kvs where e: "emission = JDict kvs"
    and gas: "gas = (case map_of kvs ''Gas'' of None \<Rightarrow> JNull | Some y \<Rightarrow> y)"
    using py_get_Inr by blast
  have m: "(gas = JStr ''co2e_100yr'' \<or> gas = JStr ''co2e'') \<longleftrightarrow>
           (gas_is ''co2e_100yr'' emission \<or> gas_is ''co2e'' emission)"
    by (auto simp: e gas gas_is_def split: option.splits)
  show ?case
  proof (cases "gas = JStr ''co2e_100yr'' \<or> gas = JStr ''co2e''")
    case True
    with Cons.prems g have "py_get emission ''EmissionsQuantity'' (JNum 0) = Inr v"
      by auto
    then have "v = emissions_quantity emission"
      by (simp add: e emissions_quantity_def)
    with True m show ?thesis
      by (simp add: first_match_quantity_def)
  next
    case False
    with Cons.prems g have "scan_emissions rest = Inr v"
      by auto
    then have "v = first_match_quantity rest" by (rule Cons.IH)
    with False m show ?thesis
      by (simp add: first_match_quantity_def)
  qed
qed

lemma source_emissions_first_match:
  assumes "source_emissions source = Inr v" and "source = JDict kvs"
  shows "v = first_match_quantity (summary_entries source)"
proof (cases "map_of kvs ''EmissionsSummary''")
  case None
  then have "''EmissionsSummary'' \<notin> fst ` set kvs"
    by (simp add: map_of_eq_None_iff)
  with assms None show ?thesis
    by (simp add: source_emissions_def summary_entries_def first_match_quantity_def)
next
  case (Some es)
  then have "''EmissionsSummary'' \<in> fst ` set kvs"
    by (metis map_of_eq_None_iff option.distinct(1))
  with assms Some obtain it where it: "py_iter es = Inr it" and sc: "scan_emissions it = Inr v"
    by (auto simp: source_emissions_def bindE_eq_Inr)
  have v: "v = first_match_quantity it" using sc by (rule scan_emissions_first_match)
  show ?thesis
  proof (cases es)
    case (JList xs)
    with it v assms Some show ?thesis by (simp add: summary_entries_def)
  next
    case (JStr s)
    with it sc have "s = []" by (cases s) auto
    with it JStr v assms Some show ?thesis by (auto simp: summary_entries_def)
  next
    case (JDict d)
    with it sc have "d = []" by (cases d) auto
    with it JDict v assms Some show ?thesis by (auto simp: summary_entries_def)
  qed (use it in auto)
qed


lemma py_getitem_Inr: "py_getitem v k = Inr x \<Longrightarrow> \<exists>kvs. v = JDict kvs \<and> map_of kvs k = Some x"
  by (cases v) (auto split: option.splits)


lemma bindE_Inr_E:
  assumes "bindE m f = Inr y"
  obtains x where "m = Inr x" and "f x = Inr y"
  using assms by (auto simp: bindE_eq_Inr)

lemma guard_E:
  assumes "(if \<not> c then Inr None else X) = Inr (Some p)"
  obtains "c" and "X = Inr (Some p)"
  using assms by (auto split: if_splits)

lemma heat_map_point_Some:
  assumes "heat_map_point b source = Inr (Some p)"
  shows "\<exists>kvs c coords n lon lat emissions source_id name cntry sector.
           source = JDict kvs \<and> map_of kvs ''Centroid'' = Some c \<and>
           py_getitem c ''Geometry'' = Inr coords \<and> py_len coords = Inr n \<and> 2 \<le> n \<and>
           py_index coords 0 = Inr lon \<and> py_index coords 1 = Inr lat \<and>
           in_bounds b lon lat = Inr True \<and>
           source_emissions source = Inr emissions \<and>
           p = JDict [(''lat'', lat), (''lon'', lon), (''intensity'', emissions),
                      (''source_id'', source_id), (''name'', name), (''country'', cntry),
                      (''sector'', sector)]"
  using assms unfolding heat_map_point_def
  apply (elim bindE_Inr_E guard_E)
  apply (frule py_getitem_Inr)
  apply clarsimp
  done


lemma heat_map_loop_points:
  "heat_map_loop b xs acc = Inr ps \<Longrightarrow> ps = acc @ record_points b xs"
proof (induction xs arbitrary: acc)
  case Nil
  then show ?case by (simp add: record_points_def)
next
  case (Cons source rest)
  show ?case
  proof (cases "heat_map_point b source")
    case (Inl e)
    with Cons.prems show ?thesis by simp
  next
    case (Inr r)
    show ?thesis
    proof (cases r)
      case None
      with Inr Cons.prems have "heat_map_loop b rest acc = Inr ps" by simp
      then have "ps = acc @ record_points b rest" by (rule Cons.IH)
      with Inr None show ?thesis by (simp add: record_points_def)
    next
      case (Some p)
      with Inr Cons.prems have "heat_map_loop b rest (acc @ [p]) = Inr ps" by simp
      then have "ps = (acc @ [p]) @ record_points b rest" by (rule Cons.IH)
      with Inr Some show ?thesis by (simp add: record_points_def)
    qed
  qed
qed




lemma heat_map_points_loop:
  "heat_map_points b sources_data = heat_map_loop b (asset_records sources_data) []"
  by (simp add: heat_map_points_def asset_records_def split: json.splits)

lemma py_in_dict_True:
  "py_in k (JDict d) = Inr True \<Longrightarrow> map_of d k \<noteq> None"
  by (simp add: map_of_eq_None_iff)

lemma fst_get_emissions_heat_map_data:
  "fst (get_emissions_heat_map_data E bounds year sector sent) =
     catch_error (heat_map_result (effective_bounds bounds) year sector
       (fst (search_emissions_sources E 1000 year 0 None (sector_filter sector) None None None None sent)))"
  by (simp add: get_emissions_heat_map_data_def split: prod.splits)

lemma heat_map_normal_return:
  assumes res: "fst (get_emissions_heat_map_data E bounds year sector sent) = JDict d"
    and noerr: "map_of d ''error'' = None"
  shows "\<exists>ps. heat_map_loop (effective_bounds bounds)
                 (asset_records (fst (search_emissions_sources E 1000 year 0 None (sector_filter sector)
                                        None None None None sent))) [] = Inr ps \<and>
              map_of d ''points'' = Some (JList ps)"
proof -
  let ?sd = "fst (search_emissions_sources E 1000 year 0 None (sector_filter sector) None None None None sent)"
  let ?B = "effective_bounds bounds"
  from res have r: "catch_error (heat_map_result ?B year sector ?sd) = JDict d"
    by (simp add: fst_get_emissions_heat_map_data)
  show ?thesis
  proof (cases "heat_map_result ?B year sector ?sd")
    case (Inl e)
    with r noerr show ?thesis by (auto simp: catch_error_def error_dict_def)
  next
    case (Inr v)
    with r have v: "v = JDict d" by (simp add: catch_error_def)
    from Inr obtain failed where f: "py_in ''error'' ?sd = Inr failed"
      unfolding heat_map_result_def by (elim bindE_Inr_E)
    show ?thesis
    proof (cases failed)
      case True
      with Inr f v have "?sd = JDict d" by (simp add: heat_map_result_def)
      with f True noerr show ?thesis using py_in_dict_True by metis
    next
      case False
      with Inr f obtain ps where ps: "heat_map_points ?B ?sd = Inr ps"
        and vv: "v = JDict [(''points'', JList ps),
                   (''bounds'', JDict (map (\<lambda>kv. (fst kv, JNum (snd kv))) ?B)),
                   (''year'', JNum (of_int year)),
                   (''sector'', (case sector of None \<Rightarrow> JNull | Some s \<Rightarrow> JStr s)),
                   (''total_sources'', JNum (of_nat (length ps)))]"
        by (auto simp: heat_map_result_def bindE_eq_Inr)
      from ps have "heat_map_loop ?B (asset_records ?sd) [] = Inr ps"
        by (simp add: heat_map_points_loop)
      moreover from v vv have "map_of d ''points'' = Some (JList ps)" by auto
      ultimately show ?thesis by blast
    qed
  qed
qed


lemma sample_search:
  "fst (search_emissions_sources (sample_env (always_reply j)) limit year offset a b c d e f sent) = j"
  by (simp add: search_emissions_sources_def fetch_json_def session_send_def sample_env_def
      always_reply_def raise_for_status_def response_json_def catch_error_def)

lemma point_both_gases:
  "heat_map_point default_bounds asset_both_gases =
     Inr (Some (JDict [(''lat'', JNum 20), (''lon'', JNum 10), (''intensity'', JNum 5),
                       (''source_id'', JNum 7), (''name'', JStr ''Unknown''),
                       (''country'', JStr []), (''sector'', JStr [])]))"
  by (simp add: heat_map_point_def asset_both_gases_def in_bounds_def default_bounds_def
      bounds_get_def num_le_py_def py_le_num_def source_emissions_def)

lemma point_no_centroid: "heat_map_point default_bounds asset_no_centroid = Inr None"
  by (simp add: heat_map_point_def asset_no_centroid_def)

lemma point_outside: "heat_map_point default_bounds asset_outside = Inr None"
  by (simp add: heat_map_point_def asset_outside_def in_bounds_def default_bounds_def
      bounds_get_def num_le_py_def py_le_num_def)

lemma sample_heat_map:
  "fst (get_emissions_heat_map_data (sample_env (always_reply assets_reply)) None 2022 None []) =
     JDict [(''points'',
               JList [JDict [(''lat'', JNum 20), (''lon'', JNum 10), (''intensity'', JNum 5),
                             (''source_id'', JNum 7), (''name'', JStr ''Unknown''),
                             (''country'', JStr []), (''sector'', JStr [])]]),
            (''bounds'', JDict [(''north'', JNum 85), (''south'', JNum (-85)),
                                (''east'', JNum 180), (''west'', JNum (-180))]),
            (''year'', JNum 2022),
            (''sector'', JNull),
            (''total_sources'', JNum 1)]"
proof -
  have "heat_map_points default_bounds assets_reply =
          heat_map_loop default_bounds [asset_both_gases, asset_no_centroid, asset_outside] []"
    by (simp add: heat_map_points_def assets_of_def assets_reply_def)
  then have "heat_map_points default_bounds assets_reply =
          Inr [JDict [(''lat'', JNum 20), (''lon'', JNum 10), (''intensity'', JNum 5),
                      (''source_id'', JNum 7), (''name'', JStr ''Unknown''),
                      (''country'', JStr []), (''sector'', JStr [])]]"
    by (simp add: point_both_gases point_no_centroid point_outside)
  moreover have "py_in ''error'' assets_reply = Inr False"
    by (simp add: assets_reply_def)
  ultimately have "heat_map_result default_bounds 2022 None assets_reply =
      Inr (JDict [(''points'',
               JList [JDict [(''lat'', JNum 20), (''lon'', JNum 10), (''intensity'', JNum 5),
                             (''source_id'', JNum 7), (''name'', JStr ''Unknown''),
                             (''country'', JStr []), (''sector'', JStr [])]]),
            (''bounds'', JDict [(''north'', JNum 85), (''south'', JNum (-85)),
                                (''east'', JNum 180), (''west'', JNum (-180))]),
            (''year'', JNum 2022),
            (''sector'', JNull),
            (''total_sources'', JNum 1)])"
    by (simp add: heat_map_result_def) (simp add: default_bounds_def)
  then show ?thesis
    by (simp add: fst_get_emissions_heat_map_data sample_search effective_bounds_def catch_error_def)
qed

lemma preferred_both: "preferred_quantity (summary_entries asset_both_gases) = JNum 7"
  by (simp add: preferred_quantity_def summary_entries_def asset_both_gases_def gas_is_def
      emissions_quantity_def)





text \<open>
  C1, as stated, fails: the scan has no preference between the two codes.
  A record inside the box whose summary lists \<^verbatim>\<open>co2e\<close> (quantity 5) before
  \<^verbatim>\<open>co2e_100yr\<close> (quantity 7) gets intensity 5, where preferring
  \<^verbatim>\<open>co2e_100yr\<close> would give 7.
\<close>

theorem heat_map_intensity_prefers_no_gas:
  "fst (get_emissions_heat_map_data (sample_env (always_reply assets_reply)) None 2022 None []) =
     JDict [(''points'',
               JList [JDict [(''lat'', JNum 20), (''lon'', JNum 10), (''intensity'', JNum 5),
                             (''source_id'', JNum 7), (''name'', JStr ''Unknown''),
                             (''country'', JStr []), (''sector'', JStr [])]]),
            (''bounds'', JDict [(''north'', JNum 85), (''south'', JNum (-85)),
                                (''east'', JNum 180), (''west'', JNum (-180))]),
            (''year'', JNum 2022),
            (''sector'', JNull),
            (''total_sources'', JNum 1)] \<and>
   asset_records assets_reply = [asset_both_gases, asset_no_centroid, asset_outside] \<and>
   summary_entries asset_both_gases =
     [JDict [(''Gas'', JStr ''co2e''), (''EmissionsQuantity'', JNum 5)],
      JDict [(''Gas'', JStr ''co2e_100yr''), (''EmissionsQuantity'', JNum 7)]] \<and>
   preferred_quantity (summary_entries asset_both_gases) = JNum 7 \<and>
   JNum 5 \<noteq> JNum 7"
  by (simp add: sample_heat_map preferred_both)
     (simp add: asset_records_def assets_of_def assets_reply_def summary_entries_def asset_both_gases_def)

text \<open>
  C1, amended: the points of a result mapping are the points of the records,
  in order, and the intensity of the point of a record is the
  \<^verbatim>\<open>EmissionsQuantity\<close> (0 when absent) of the first entry, in list order, of
  the record's \<^verbatim>\<open>EmissionsSummary\<close> whose \<^verbatim>\<open>Gas\<close> is \<^verbatim>\<open>co2e_100yr\<close> or \<^verbatim>\<open>co2e\<close>,
  whichever of the two comes first; it is 0 when no entry has either code or
  the record has no summary.
\<close>

theorem heat_map_intensity_first_match:
  "(\<forall>d. fst (get_emissions_heat_map_data E bounds year sector sent) = JDict d \<and>
        map_of d ''error'' = None \<longrightarrow>
      map_of d ''points'' =
        Some (JList (record_points (effective_bounds bounds)
          (asset_records (fst (search_emissions_sources E 1000 year 0 None (sector_filter sector)
                                 None None None None sent)))))) \<and>
   (\<forall>p. heat_map_point b source = Inr (Some p) \<longrightarrow>
      py_getitem p ''intensity'' = Inr (first_match_quantity (summary_entries source)))"
proof (intro conjI allI impI)
  fix d
  assume "fst (get_emissions_heat_map_data E bounds year sector sent) = JDict d \<and>
        map_of d ''error'' = None"
  then obtain ps where
    loop: "heat_map_loop (effective_bounds bounds)
             (asset_records (fst (search_emissions_sources E 1000 year 0 None (sector_filter sector)
                                    None None None None sent))) [] = Inr ps"
    and pts: "map_of d ''points'' = Some (JList ps)"
    using heat_map_normal_return by blast
  from heat_map_loop_points [OF loop] pts
  show "map_of d ''points'' =
        Some (JList (record_points (effective_bounds bounds)
          (asset_records (fst (search_emissions_sources E 1000 year 0 None (sector_filter sector)
                                 None None None None sent)))))"
    by simp
next
  fix p
  assume "heat_map_point b source = Inr (Some p)"
  then obtain kvs emissions lat lon rest where
    src: "source = JDict kvs" and em: "source_emissions source = Inr emissions"
    and p: "p = JDict ((''lat'', lat) # (''lon'', lon) # (''intensity'', emissions) # rest)"
    using heat_map_point_Some by blast
  from source_emissions_first_match [OF em src] p
  show "py_getitem p ''intensity'' = Inr (first_match_quantity (summary_entries source))"
    by simp
qed

theorem heat_map_intensity_first_match_witness:
  "fst (get_emissions_heat_map_data (sample_env (always_reply assets_reply)) None 2022 None []) =
     JDict [(''points'',
               JList [JDict [(''lat'', JNum 20), (''lon'', JNum 10), (''intensity'', JNum 5),
                             (''source_id'', JNum 7), (''name'', JStr ''Unknown''),
                             (''country'', JStr []), (''sector'', JStr [])]]),
            (''bounds'', JDict [(''north'', JNum 85), (''south'', JNum (-85)),
                                (''east'', JNum 180), (''west'', JNum (-180))]),
            (''year'', JNum 2022),
            (''sector'', JNull),
            (''total_sources'', JNum 1)] \<and>
   record_points (effective_bounds None) (asset_records assets_reply) =
     [JDict [(''lat'', JNum 20), (''lon'', JNum 10), (''intensity'', JNum 5),
             (''source_id'', JNum 7), (''name'', JStr ''Unknown''),
             (''country'', JStr []), (''sector'', JStr [])]] \<and>
   heat_map_point default_bounds asset_both_gases =
     Inr (Some (JDict [(''lat'', JNum 20), (''lon'', JNum 10), (''intensity'', JNum 5),
                       (''source_id'', JNum 7), (''name'', JStr ''Unknown''),
                       (''country'', JStr []), (''sector'', JStr [])])) \<and>
   first_match_quantity (summary_entries asset_both_gases) = JNum 5"
proof -
  let ?p = "JDict [(''lat'', JNum 20), (''lon'', JNum 10), (''intensity'', JNum 5),
                   (''source_id'', JNum 7), (''name'', JStr ''Unknown''),
                   (''country'', JStr []), (''sector'', JStr [])]"
  let ?d = "[(''points'', JList [?p]),
             (''bounds'', JDict [(''north'', JNum 85), (''south'', JNum (-85)),
                                 (''east'', JNum 180), (''west'', JNum (-180))]),
             (''year'', JNum 2022),
             (''sector'', JNull),
             (''total_sources'', JNum 1)]"
  note t = heat_map_intensity_first_match
             [of "sample_env (always_reply assets_reply)" None 2022 None "[]"
                 default_bounds asset_both_gases]
  have d: "fst (get_emissions_heat_map_data (sample_env (always_reply assets_reply)) None 2022 None [])
             = JDict ?d"
    by (rule sample_heat_map)
  moreover have "map_of ?d ''error'' = None" by simp
  ultimately have "map_of ?d ''points'' =
      Some (JList (record_points (effective_bounds None) (asset_records assets_reply)))"
    using t by (simp add: sample_search)
  then have pts: "record_points (effective_bounds None) (asset_records assets_reply) = [?p]"
    by simp
  from t point_both_gases
  have "py_getitem ?p ''intensity'' = Inr (first_match_quantity (summary_entries asset_both_gases))"
    by blast
  then have q: "first_match_quantity (summary_entries asset_both_gases) = JNum 5"
    by simp
  from d pts point_both_gases q show ?thesis by simp
qed

section \<open>Global emissions overview\<close>










lemma fst_get_global_emissions_overview:
  "fst (get_global_emissions_overview E year sent) =
     (let r = get_country_emissions E year year (Some [''power'']) None None None (Some top_emitters) sent
      in case py_in ''error'' (fst r) of
           Inl e \<Rightarrow> error_dict e
         | Inr True \<Rightarrow> fst r
         | Inr False \<Rightarrow> catch_error (overview_result E year (fst r) (fst (get_sectors E (snd r)))))"
  by (simp add: get_global_emissions_overview_def Let_def split: prod.splits sum.splits bool.splits)






lemma sample_country_emissions:
  "fst (get_country_emissions (sample_env (always_reply j)) since to a b c d e sent) = j"
  by (simp add: get_country_emissions_def fetch_json_def session_send_def sample_env_def
      always_reply_def raise_for_status_def response_json_def catch_error_def)




lemma sample_overview:
  "\<exists>rest. fst (get_global_emissions_overview (sample_env (always_reply countries_reply)) 2022 []) =
     JDict ((''year'', JNum 2022) # (''total_global_emissions'', JNum 66) #
            (''top_countries'',
              JList [JDict [(''country'', JStr ''K''), (''emissions'', JNum 11), (''rank'', JNum 0)],
                     JDict [(''country'', JStr ''J''), (''emissions'', JNum 10), (''rank'', JNum 0)],
                     JDict [(''country'', JStr ''I''), (''emissions'', JNum 9), (''rank'', JNum 0)],
                     JDict [(''country'', JStr ''H''), (''emissions'', JNum 8), (''rank'', JNum 0)],
                     JDict [(''country'', JStr ''G''), (''emissions'', JNum 7), (''rank'', JNum 0)],
                     JDict [(''country'', JStr ''F''), (''emissions'', JNum 6), (''rank'', JNum 0)],
                     JDict [(''country'', JStr ''E''), (''emissions'', JNum 5), (''rank'', JNum 0)],
                     JDict [(''country'', JStr ''D''), (''emissions'', JNum 4), (''rank'', JNum 0)],
                     JDict [(''country'', JStr ''C''), (''emissions'', JNum 3), (''rank'', JNum 0)],
                     JDict [(''country'', JStr ''B''), (''emissions'', JNum 2), (''rank'', JNum 0)]]) # rest)"
  by (simp add: fst_get_global_emissions_overview Let_def sample_country_emissions countries_reply_def
      country_with_def overview_result_def country_records_def rank_country_def num_add_py_def
      sort_by_emissions_desc_def ranking_key_def catch_error_def)

end
